theory Spec2Isabelle
  imports Complex_Main
begin

section \<open>Geometry of a loaded model\<close>

text \<open>
  \<^verbatim>\<open>src/components/Viewer3D.tsx\<close> receives a \<^verbatim>\<open>THREE.BufferGeometry\<close> from
  \<^verbatim>\<open>useLoader(STLLoader, url)\<close> and normalises it in a layout effect. The geometry object
  and its operations belong to three.js, which is not part of the sources; they are
  modelled below on real numbers with exact arithmetic, so rounding of JavaScript numbers
  is not represented.
\<close>

datatype vec3 = Vec3 (vx: real) (vy: real) (vz: real)

definition zero3 :: vec3 where
  "zero3 = Vec3 0 0 0"

fun add3 :: "vec3 \<Rightarrow> vec3 \<Rightarrow> vec3" where
  "add3 (Vec3 a b c) (Vec3 d e f) = Vec3 (a + d) (b + e) (c + f)"

fun sub3 :: "vec3 \<Rightarrow> vec3 \<Rightarrow> vec3" where
  "sub3 (Vec3 a b c) (Vec3 d e f) = Vec3 (a - d) (b - e) (c - f)"

fun negate3 :: "vec3 \<Rightarrow> vec3" where
  "negate3 (Vec3 a b c) = Vec3 (- a) (- b) (- c)"

fun multiplyScalar :: "vec3 \<Rightarrow> real \<Rightarrow> vec3" where
  "multiplyScalar (Vec3 a b c) k = Vec3 (a * k) (b * k) (c * k)"

fun min3 :: "vec3 \<Rightarrow> vec3 \<Rightarrow> vec3" where
  "min3 (Vec3 a b c) (Vec3 d e f) = Vec3 (min a d) (min b e) (min c f)"

fun max3 :: "vec3 \<Rightarrow> vec3 \<Rightarrow> vec3" where
  "max3 (Vec3 a b c) (Vec3 d e f) = Vec3 (max a d) (max b e) (max c f)"

text \<open>
  Modelled from the spec: the axis-aligned bounding box (three.js \<^verbatim>\<open>Box3\<close>, not under
  src/). "AxisAlignedBoundingBox: min and max corner in 3D"; the box of no point at all is
  the empty box, whose centre and size three.js reports as the zero vector.
\<close>

datatype box3 = EmptyBox | Box (bmin: vec3) (bmax: vec3)

fun expandByPoint :: "box3 \<Rightarrow> vec3 \<Rightarrow> box3" where
  "expandByPoint EmptyBox p = Box p p"
| "expandByPoint (Box mn mx) p = Box (min3 mn p) (max3 mx p)"

definition setFromPoints :: "vec3 list \<Rightarrow> box3" where
  "setFromPoints ps = foldl expandByPoint EmptyBox ps"

fun getCenter :: "box3 \<Rightarrow> vec3" where
  "getCenter EmptyBox = zero3"
| "getCenter (Box mn mx) = multiplyScalar (add3 mn mx) (1 / 2)"

text \<open>Modelled from the spec: "BoundingSize: derived vector = max - min".\<close>

fun getSize :: "box3 \<Rightarrow> vec3" where
  "getSize EmptyBox = zero3"
| "getSize (Box mn mx) = sub3 mx mn"

text \<open>
  A geometry carries its vertex positions (three consecutive positions per triangle, as
  the STL loader produces them), the per-vertex normals when present, and the cached
  bounding box, which is \<^verbatim>\<open>null\<close> until it is computed.
\<close>

record geometry =
  position :: "vec3 list"
  normal :: "vec3 list option"
  boundingBox :: "box3 option"

definition computeBoundingBox :: "geometry \<Rightarrow> geometry" where
  "computeBoundingBox g = g\<lparr>boundingBox := Some (setFromPoints (position g))\<rparr>"

text \<open>
  Translating moves every position; a bounding box that has been computed before is
  computed again. The normals are direction vectors and are not moved by a translation.
\<close>

definition translate :: "geometry \<Rightarrow> vec3 \<Rightarrow> geometry" where
  "translate g off =
     (let g1 = g\<lparr>position := map (\<lambda>p. add3 p off) (position g)\<rparr>
      in if boundingBox g1 \<noteq> None then computeBoundingBox g1 else g1)"

text \<open>
  Modelled from the spec: \<^verbatim>\<open>BufferGeometry.center\<close> of three.js (not under src/).
  "compute the bounding box of all vertex positions first, then translate every vertex by
  the negative of the box's center".
\<close>

definition center_offset :: "geometry \<Rightarrow> vec3" where
  "center_offset g = negate3 (getCenter (setFromPoints (position g)))"

definition center :: "geometry \<Rightarrow> geometry" where
  "center g = translate (computeBoundingBox g) (center_offset g)"

text \<open>
  \<^verbatim>\<open>computeVertexNormals\<close> of three.js is a parameter \<open>cvn\<close> of the model: a function
  from the positions to the new normals. The call always replaces the normal attribute.
  What three.js computes for the geometry of the STL loader is \<open>vertexNormals\<close> below.
\<close>

definition computeVertexNormals :: "(vec3 list \<Rightarrow> vec3 list) \<Rightarrow> geometry \<Rightarrow> geometry" where
  "computeVertexNormals cvn g = g\<lparr>normal := Some (cvn (position g))\<rparr>"

subsection \<open>The Model component\<close>

text \<open>
  Callbacks are function objects; the model keeps their identity (a number) and records
  every invocation with its argument.
\<close>

datatype call = UseLoader string | OnLoaded nat vec3 | OnError | Uncaught

text \<open>
  The body of the layout effect of \<^verbatim>\<open>Model\<close> (Viewer3D.tsx, lines 18-30):
  \<^verbatim>\<open>
  if (geometry) {
    geometry.computeVertexNormals();
    geometry.center();
    geometry.computeBoundingBox();
    if (geometry.boundingBox && onLoaded) {
      const size = new THREE.Vector3();
      geometry.boundingBox.getSize(size);
      onLoaded({ x: size.x, y: size.y, z: size.z });
    }
  }
  \<close>
  It returns the geometry as the effect leaves it and the callback invocations it made.
\<close>

definition Model_effect ::
  "(vec3 list \<Rightarrow> vec3 list) \<Rightarrow> geometry option \<Rightarrow> nat option \<Rightarrow> geometry option \<times> call list" where
  "Model_effect cvn geom onLoaded =
     (case geom of
        None \<Rightarrow> (None, [])
      | Some g \<Rightarrow>
          (let g1 = computeVertexNormals cvn g;
               g2 = center g1;
               g3 = computeBoundingBox g2
           in (Some g3,
               (case (boundingBox g3, onLoaded) of
                  (Some b, Some f) \<Rightarrow> [OnLoaded f (getSize b)]
                | _ \<Rightarrow> []))))"

text \<open>
  What \<^verbatim>\<open>Model\<close> returns (lines 32-36): a mesh element for the geometry, whatever the
  geometry holds, with the colour defaulting to \<^verbatim>\<open>#3b82f6\<close>.
\<close>

datatype element = Mesh "geometry option" string

definition Model_render :: "geometry option \<Rightarrow> string option \<Rightarrow> element" where
  "Model_render geom color =
     Mesh geom (case color of None \<Rightarrow> ''#3b82f6'' | Some c \<Rightarrow> c)"

text \<open>
  What \<^verbatim>\<open>computeVertexNormals\<close> of three.js (not under src/) does on a geometry without
  index, which is what the STL loader produces: the positions are taken three at a time,
  the cross product \<^verbatim>\<open>(pC - pB) x (pA - pB)\<close> of each triangle is stored for its three
  vertices, and \<^verbatim>\<open>normalizeNormals\<close> then divides every stored vector by
  \<^verbatim>\<open>length() || 1\<close>, that is by its length, or by one when the length is zero.
\<close>

fun cross3 :: "vec3 \<Rightarrow> vec3 \<Rightarrow> vec3" where
  "cross3 (Vec3 a b c) (Vec3 d e f) = Vec3 (b * f - c * e) (c * d - a * f) (a * e - b * d)"

fun faceNormals :: "vec3 list \<Rightarrow> vec3 list" where
  "faceNormals (pA # pB # pC # ps) =
     (let cb = cross3 (sub3 pC pB) (sub3 pA pB) in cb # cb # cb # faceNormals ps)"
| "faceNormals ps = []"

fun dot3 :: "vec3 \<Rightarrow> vec3 \<Rightarrow> real" where
  "dot3 (Vec3 a b c) (Vec3 d e f) = a * d + b * e + c * f"

definition length3 :: "vec3 \<Rightarrow> real" where
  "length3 v = sqrt (dot3 v v)"

fun divideScalar :: "vec3 \<Rightarrow> real \<Rightarrow> vec3" where
  "divideScalar (Vec3 a b c) k = Vec3 (a / k) (b / k) (c / k)"

definition normalize3 :: "vec3 \<Rightarrow> vec3" where
  "normalize3 v = divideScalar v (if length3 v = 0 then 1 else length3 v)"

definition vertexNormals :: "vec3 list \<Rightarrow> vec3 list" where
  "vertexNormals ps = map normalize3 (faceNormals ps)"

text \<open>
  Concrete geometries: a triangle loaded with normals that point the other way, three
  points on a line through the origin, no vertex at all, a triangle of area zero, and two
  triangles in different planes that share the position (0,0,0).
\<close>

definition unit_triangle :: geometry where
  "unit_triangle = \<lparr>position = [Vec3 0 0 0, Vec3 1 0 0, Vec3 0 1 0],
                    normal = Some [Vec3 0 0 (- 1), Vec3 0 0 (- 1), Vec3 0 0 (- 1)],
                    boundingBox = None\<rparr>"

definition centered_segment :: geometry where
  "centered_segment = \<lparr>position = [Vec3 (- 1) 0 2, Vec3 1 0 (- 2), Vec3 0 0 0],
                       normal = None, boundingBox = None\<rparr>"

definition empty_geometry :: geometry where
  "empty_geometry = \<lparr>position = [], normal = None, boundingBox = None\<rparr>"

definition flat_triangle :: geometry where
  "flat_triangle = \<lparr>position = [Vec3 0 0 0, Vec3 1 0 0, Vec3 2 0 0],
                    normal = None, boundingBox = None\<rparr>"

definition folded_pair :: geometry where
  "folded_pair = \<lparr>position = [Vec3 0 0 0, Vec3 1 0 0, Vec3 0 1 0,
                               Vec3 0 0 0, Vec3 0 1 0, Vec3 0 0 1],
                  normal = None, boundingBox = None\<rparr>"

text \<open>
  The effect is declared with the dependencies \<^verbatim>\<open>[geometry, onLoaded]\<close>: React runs it
  when the component mounts and again after every render in which one of the two is a
  different object than at the previous run. Objects are compared by identity, so the
  geometry is known to the component by its reference into the store of loaded geometry
  objects, and the callback by the identity of the function passed as the prop.
\<close>

type_synonym deps = "nat \<times> nat option"

type_synonym store = "nat \<Rightarrow> geometry option"

definition Model_commit ::
  "(vec3 list \<Rightarrow> vec3 list) \<Rightarrow> nat \<Rightarrow> nat option \<Rightarrow> deps option \<Rightarrow> store
     \<Rightarrow> deps option \<times> store \<times> call list" where
  "Model_commit cvn ref onLoaded prev heap =
     (if prev = Some (ref, onLoaded) then (prev, heap, [])
      else (case Model_effect cvn (heap ref) onLoaded of
              (g', calls) \<Rightarrow> (Some (ref, onLoaded), heap(ref := g'), calls)))"

text \<open>
  A mounted \<^verbatim>\<open>Model\<close> rendered again and again. A render either completes, with the
  geometry reference and the callback of that render, or suspends in \<^verbatim>\<open>useLoader\<close>.
  \<^verbatim>\<open>Model\<close> is below \<^verbatim>\<open>Suspense\<close> (line 74): when a render suspends, React shows the
  fallback and tears down the layout effects of the hidden content, and it runs them again
  when the content is shown again, whatever the dependencies. The result is every
  callback invocation made.
\<close>

datatype render = Suspended | Completed nat "nat option"

fun Model_renders ::
  "(vec3 list \<Rightarrow> vec3 list) \<Rightarrow> render list \<Rightarrow> deps option \<Rightarrow> store \<Rightarrow> call list" where
  "Model_renders cvn [] prev heap = []"
| "Model_renders cvn (Suspended # rs) prev heap = Model_renders cvn rs None heap"
| "Model_renders cvn (Completed ref onLoaded # rs) prev heap =
     (case Model_commit cvn ref onLoaded prev heap of
        (prev', heap', calls) \<Rightarrow> calls @ Model_renders cvn rs prev' heap')"

subsection \<open>The error boundary\<close>

text \<open>
  \<^verbatim>\<open>ErrorBoundary\<close> (lines 106-125): the constructor sets \<^verbatim>\<open>hasError\<close> to false,
  \<^verbatim>\<open>getDerivedStateFromError\<close> gives the state with \<^verbatim>\<open>hasError\<close> true, and
  \<^verbatim>\<open>render\<close> returns null once it is set, the children otherwise.
\<close>

record boundary_state =
  hasError :: bool

definition ErrorBoundary_constructor :: boundary_state where
  "ErrorBoundary_constructor = \<lparr>hasError = False\<rparr>"

definition getDerivedStateFromError :: boundary_state where
  "getDerivedStateFromError = \<lparr>hasError = True\<rparr>"

definition ErrorBoundary_render :: "boundary_state \<Rightarrow> 'a \<Rightarrow> 'a option" where
  "ErrorBoundary_render st children = (if hasError st then None else Some children)"

subsection \<open>The Viewer3D component\<close>

text \<open>
  What \<^verbatim>\<open>Viewer3D\<close> returns (lines 65-102): the first test is \<^verbatim>\<open>!url\<close>, true of an
  absent and of an empty string; the second is the \<^verbatim>\<open>error\<close> state; otherwise the
  canvas with the boundary and the model for the URL.
\<close>

datatype view = NoModelSelected | ErrorLoadingModel | CanvasView string

definition Viewer3D_render :: "string option \<Rightarrow> bool \<Rightarrow> view" where
  "Viewer3D_render url error =
     (case url of
        None \<Rightarrow> NoModelSelected
      | Some u \<Rightarrow>
          if u = [] then NoModelSelected
          else if error then ErrorLoadingModel
          else CanvasView u)"

text \<open>
  One mounted \<^verbatim>\<open>Viewer3D\<close> with what is mounted below it: its props, its two pieces of
  state (\<^verbatim>\<open>useState(false)\<close> twice), whether a \<^verbatim>\<open>setError(true)\<close> is queued that no
  render of \<^verbatim>\<open>Viewer3D\<close> has applied yet, the state of the boundary instance while the
  canvas is mounted, the dependencies of the last effect run of the \<^verbatim>\<open>Model\<close> instance,
  the store of geometry objects and the calls made so far.
\<close>

record session =
  s_url :: "string option"
  s_onLoaded :: "nat option"
  s_error :: bool
  s_pending :: bool
  s_isFullscreen :: bool
  s_boundary :: "boundary_state option"
  s_deps :: "deps option"
  s_heap :: store
  s_log :: "call list"

text \<open>
  When \<^verbatim>\<open>Viewer3D\<close> returns the canvas the instances below keep their state (a boundary
  is constructed when there was none); when it returns a placeholder they are unmounted.
\<close>

definition reconcile :: "session \<Rightarrow> session" where
  "reconcile s =
     (case Viewer3D_render (s_url s) (s_error s) of
        CanvasView u \<Rightarrow>
          (case s_boundary s of
             None \<Rightarrow> s\<lparr>s_boundary := Some ErrorBoundary_constructor\<rparr>
           | Some b \<Rightarrow> s)
      | _ \<Rightarrow> s\<lparr>s_boundary := None, s_deps := None\<rparr>)"

text \<open>
  A render of \<^verbatim>\<open>Viewer3D\<close> (after new props or a state update) first applies the queued
  state update.
\<close>

definition Viewer3D_rerender :: "session \<Rightarrow> session" where
  "Viewer3D_rerender s =
     reconcile (s\<lparr>s_error := (if s_pending s then True else s_error s), s_pending := False\<rparr>)"

definition Viewer3D_mount :: "string option \<Rightarrow> nat option \<Rightarrow> store \<Rightarrow> session" where
  "Viewer3D_mount url onLoaded heap =
     reconcile \<lparr>s_url = url, s_onLoaded = onLoaded, s_error = False, s_pending = False,
                s_isFullscreen = False, s_boundary = None, s_deps = None, s_heap = heap,
                s_log = []\<rparr>"

text \<open>The URL the \<^verbatim>\<open>Model\<close> is rendered for, when it is rendered at all.\<close>

definition rendered_url :: "session \<Rightarrow> string option" where
  "rendered_url s =
     (case Viewer3D_render (s_url s) (s_error s) of
        CanvasView u \<Rightarrow>
          (case s_boundary s of
             None \<Rightarrow> None
           | Some b \<Rightarrow> ErrorBoundary_render b u)
      | _ \<Rightarrow> None)"

text \<open>
  \<^verbatim>\<open>componentDidCatch\<close> (lines 116-119) calls \<^verbatim>\<open>this.props.onError()\<close>, which
  \<^verbatim>\<open>Viewer3D\<close> passes as \<^verbatim>\<open>() => setError(true)\<close> (line 77); the state update is
  queued for the next render of \<^verbatim>\<open>Viewer3D\<close>.
\<close>

definition Viewer3D_onError :: "session \<Rightarrow> session" where
  "Viewer3D_onError s = s\<lparr>s_pending := True\<rparr>"

definition componentDidCatch :: "session \<Rightarrow> session" where
  "componentDidCatch s = Viewer3D_onError (s\<lparr>s_log := s_log s @ [OnError]\<rparr>)"

text \<open>
  An exception raised while React renders or commits the children of the boundary: React
  takes the state from \<^verbatim>\<open>getDerivedStateFromError\<close>, renders the boundary with it, which
  unmounts the \<^verbatim>\<open>Model\<close> when \<^verbatim>\<open>render\<close> returns null, and calls
  \<^verbatim>\<open>componentDidCatch\<close>.
\<close>

definition boundary_catch :: "session \<Rightarrow> session" where
  "boundary_catch s =
     (let b = getDerivedStateFromError;
          s1 = s\<lparr>s_boundary := Some b\<rparr>;
          s2 = (case ErrorBoundary_render b () of
                  None \<Rightarrow> s1\<lparr>s_deps := None\<rparr>
                | Some children \<Rightarrow> s1)
      in componentDidCatch s2)"

text \<open>
  What happens to a session: the parent passes new props; the browser reports a
  fullscreen change (\<^verbatim>\<open>setIsFullscreen\<close>, lines 56-63); React renders \<^verbatim>\<open>Viewer3D\<close> for
  a queued state update; the content of the canvas is rendered; or an exception is raised
  in the canvas outside the children of the boundary (in \<^verbatim>\<open>Stage\<close>, \<^verbatim>\<open>Center\<close>,
  \<^verbatim>\<open>Grid\<close>, \<^verbatim>\<open>OrbitControls\<close> or the frame loop that draws the scene), which no code of
  \<^verbatim>\<open>Viewer3D.tsx\<close> catches.

  A render of the canvas content reaches \<^verbatim>\<open>useLoader\<close> only when the \<^verbatim>\<open>Model\<close> is
  rendered. The loader then suspends (still loading; the fallback is shown and the layout
  effect of the \<^verbatim>\<open>Model\<close> is torn down), throws (the load failed, or rendering throws;
  React renders the children a second time before it gives the exception to the
  boundary), or returns the geometry object with the given reference. In the last case
  the render is committed and the layout effect may run; the flag says whether the
  \<^verbatim>\<open>onLoaded\<close> function throws when it is called, which the boundary catches as well.
\<close>

datatype load_outcome = Suspends | Throws | Returns nat bool

datatype event =
    SetProps "string option" "nat option"
  | FullscreenChange bool
  | Flush
  | Render load_outcome
  | Escapes

definition step :: "(vec3 list \<Rightarrow> vec3 list) \<Rightarrow> event \<Rightarrow> session \<Rightarrow> session" where
  "step cvn ev s =
     (case ev of
        SetProps url onLoaded \<Rightarrow> Viewer3D_rerender (s\<lparr>s_url := url, s_onLoaded := onLoaded\<rparr>)
      | FullscreenChange b \<Rightarrow> Viewer3D_rerender (s\<lparr>s_isFullscreen := b\<rparr>)
      | Flush \<Rightarrow> Viewer3D_rerender s
      | Escapes \<Rightarrow>
          (case Viewer3D_render (s_url s) (s_error s) of
             CanvasView u \<Rightarrow> s\<lparr>s_log := s_log s @ [Uncaught]\<rparr>
           | _ \<Rightarrow> s)
      | Render outcome \<Rightarrow>
          (case rendered_url s of
             None \<Rightarrow> s
           | Some u \<Rightarrow>
               (let s1 = s\<lparr>s_log := s_log s @ [UseLoader u]\<rparr>
                in case outcome of
                     Suspends \<Rightarrow> s1\<lparr>s_deps := None\<rparr>
                   | Throws \<Rightarrow> boundary_catch (s1\<lparr>s_log := s_log s1 @ [UseLoader u]\<rparr>)
                   | Returns ref throws \<Rightarrow>
                       (case Model_commit cvn ref (s_onLoaded s1) (s_deps s1) (s_heap s1) of
                          (d, h, calls) \<Rightarrow>
                            (let s2 = s1\<lparr>s_deps := d, s_heap := h, s_log := s_log s1 @ calls\<rparr>
                             in if throws \<and> calls \<noteq> [] then boundary_catch s2 else s2)))))"

fun run :: "(vec3 list \<Rightarrow> vec3 list) \<Rightarrow> event list \<Rightarrow> session \<Rightarrow> session" where
  "run cvn [] s = s"
| "run cvn (ev # evs) s = run cvn evs (step cvn ev s)"

subsection \<open>Notions used to state the properties\<close>

text \<open>A URL for which \<^verbatim>\<open>!url\<close> holds: absent or the empty string.\<close>

definition falsy :: "string option \<Rightarrow> bool" where
  "falsy url = (case url of None \<Rightarrow> True | Some u \<Rightarrow> u = [])"

text \<open>Events that leave a session without a URL: any but new props with a URL.\<close>

fun keeps_no_url :: "event \<Rightarrow> bool" where
  "keeps_no_url (SetProps url onLoaded) = falsy url"
| "keeps_no_url (FullscreenChange b) = True"
| "keeps_no_url Flush = True"
| "keeps_no_url (Render outcome) = True"
| "keeps_no_url Escapes = True"

text \<open>
  An event at which an exception is raised below the boundary: a throwing render of the
  \<^verbatim>\<open>Model\<close>, or a committed render whose effect calls an \<^verbatim>\<open>onLoaded\<close> that throws.
\<close>

fun raised :: "(vec3 list \<Rightarrow> vec3 list) \<Rightarrow> event \<Rightarrow> session \<Rightarrow> bool" where
  "raised cvn (Render Throws) s = (rendered_url s \<noteq> None)"
| "raised cvn (Render (Returns ref throws)) s =
     (rendered_url s \<noteq> None \<and> throws \<and>
      snd (snd (Model_commit cvn ref (s_onLoaded s) (s_deps s) (s_heap s))) \<noteq> [])"
| "raised cvn ev s = False"

text \<open>
  The renders of a \<^verbatim>\<open>Model\<close> after which React runs the effect: the first completed one,
  each completed one whose geometry object or callback differs from the render before, and
  each completed one that follows a suspended render.
\<close>

fun effect_runs :: "render list \<Rightarrow> deps option \<Rightarrow> deps list" where
  "effect_runs [] prev = []"
| "effect_runs (Suspended # rs) prev = effect_runs rs None"
| "effect_runs (Completed ref onLoaded # rs) prev =
     (if prev = Some (ref, onLoaded) then [] else [(ref, onLoaded)])
       @ effect_runs rs (Some (ref, onLoaded))"

text \<open>The geometry objects that the completed renders of a list refer to are loaded.\<close>

fun loaded :: "store \<Rightarrow> render list \<Rightarrow> bool" where
  "loaded heap [] = True"
| "loaded heap (Suspended # rs) = loaded heap rs"
| "loaded heap (Completed ref onLoaded # rs) = (heap ref \<noteq> None \<and> loaded heap rs)"

text \<open>The callbacks invoked by a list of calls, and those of a list of effect runs.\<close>

fun invoked :: "call list \<Rightarrow> nat list" where
  "invoked [] = []"
| "invoked (OnLoaded f v # cs) = f # invoked cs"
| "invoked (c # cs) = invoked cs"

fun callbacks :: "deps list \<Rightarrow> nat list" where
  "callbacks [] = []"
| "callbacks ((ref, Some f) # ps) = f # callbacks ps"
| "callbacks ((ref, None) # ps) = callbacks ps"

text \<open>A store holding the unit triangle at reference 0.\<close>

definition unit_store :: store where
  "unit_store = (\<lambda>ref. if ref = 0 then Some unit_triangle else None)"

text \<open>
  The bookkeeping that every session keeps: \<^verbatim>\<open>onError\<close> has been called once when
  \<^verbatim>\<open>setError(true)\<close> is queued or applied and not at all otherwise, and while it is
  queued the \<^verbatim>\<open>Model\<close> is not rendered.
\<close>

definition onError_inv :: "session \<Rightarrow> bool" where
  "onError_inv s =
     (count_list (s_log s) OnError = (if s_error s \<or> s_pending s then 1 else 0)
      \<and> (s_pending s \<longrightarrow> rendered_url s = None))"

text \<open>A session whose first render threw, after the next render of \<^verbatim>\<open>Viewer3D\<close>.\<close>

definition errored_session :: session where
  "errored_session =
     run vertexNormals [Render Throws, Flush] (Viewer3D_mount (Some ''a.stl'') None unit_store)"

section \<open>Uploading files\<close>

text \<open>
  \<^verbatim>\<open>handleUpload\<close> of the application component. The thumbnail generator
  (\<^verbatim>\<open>services/thumbnailGenerator\<close>) and the API client (\<^verbatim>\<open>services/api\<close>) are not
  part of the sources; both are parameters: \<open>gen\<close> and \<open>up\<close> give the value the promise
  resolves to (\<open>Inr\<close>) or the error it rejects with (\<open>Inl\<close>).
\<close>

record upload_file =
  file_name :: string
  file_data :: "nat list"

record folder =
  folder_id :: string
  folder_name :: string

datatype upload_effect =
    GenerateThumbnail upload_file
  | ConsoleWarn
  | UploadModel upload_file string "string option"
  | ConsoleError upload_file

record 'm app =
  folders :: "folder list"
  models :: "'m list"
  currentFolderId :: string
  uploadQueue :: int
  effects :: "upload_effect list"

definition lower_char :: "char \<Rightarrow> char" where
  "lower_char c =
     (if 65 \<le> (of_char c :: nat) \<and> (of_char c :: nat) \<le> 90
      then char_of ((of_char c :: nat) + 32) else c)"

definition toLowerCase :: "string \<Rightarrow> string" where
  "toLowerCase s = map lower_char s"

definition endsWith :: "string \<Rightarrow> string \<Rightarrow> bool" where
  "endsWith s suf = (length suf \<le> length s \<and> drop (length s - length suf) s = suf)"

text \<open>
  Lines 119-128: the thumbnail starts undefined; for an STL file the generator is awaited
  inside its own try, whose catch only warns.
\<close>

definition thumbnail_step :: "(upload_file \<Rightarrow> string + string) \<Rightarrow> upload_file \<Rightarrow> string option \<times> upload_effect list" where
  "thumbnail_step gen f =
     (if endsWith (toLowerCase (file_name f)) ''.stl''
      then (case gen f of
              Inr t \<Rightarrow> (Some t, [GenerateThumbnail f])
            | Inl e \<Rightarrow> (None, [GenerateThumbnail f, ConsoleWarn]))
      else (None, []))"

text \<open>
  Line 132: \<^verbatim>\<open>currentFolderId\<close> and \<^verbatim>\<open>folders\<close> are the values of the render that created
  the handler, the same in every iteration.
\<close>

definition targetFolderId :: "'m app \<Rightarrow> string" where
  "targetFolderId st =
     (if currentFolderId st = ''all'' \<and> length (folders st) > 0
      then folder_id (folders st ! 0) else currentFolderId st)"

text \<open>
  The loop of lines 117-142: per file the thumbnail step, the upload, on success the new
  model in front of the list, on failure an error on the console, and in every case the
  queue counter decremented.
\<close>

fun upload_loop ::
  "(upload_file \<Rightarrow> string + string) \<Rightarrow> (upload_file \<Rightarrow> string \<Rightarrow> string option \<Rightarrow> string + 'm) \<Rightarrow> string
     \<Rightarrow> 'm app \<Rightarrow> upload_file list \<Rightarrow> 'm app" where
  "upload_loop gen up target st [] = st"
| "upload_loop gen up target st (f # fs) =
     (case thumbnail_step gen f of
        (thumbnail, eff) \<Rightarrow>
          (let st1 = st\<lparr>effects := effects st @ eff @ [UploadModel f target thumbnail]\<rparr>;
               st2 = (case up f target thumbnail of
                        Inr newModel \<Rightarrow> st1\<lparr>models := newModel # models st1\<rparr>
                      | Inl e \<Rightarrow> st1\<lparr>effects := effects st1 @ [ConsoleError f]\<rparr>);
               st3 = st2\<lparr>uploadQueue := uploadQueue st2 - 1\<rparr>
           in upload_loop gen up target st3 fs))"

definition handleUpload ::
  "(upload_file \<Rightarrow> string + string) \<Rightarrow> (upload_file \<Rightarrow> string \<Rightarrow> string option \<Rightarrow> string + 'm)
     \<Rightarrow> 'm app \<Rightarrow> upload_file list \<Rightarrow> 'm app" where
  "handleUpload gen up st files =
     upload_loop gen up (targetFolderId st)
       (st\<lparr>uploadQueue := uploadQueue st + int (length files)\<rparr>) files"

text \<open>The calls of the upload API among the effects, in order.\<close>

fun uploads :: "upload_effect list \<Rightarrow> (upload_file \<times> string \<times> string option) list" where
  "uploads [] = []"
| "uploads (UploadModel f target thumbnail # es) = (f, target, thumbnail) # uploads es"
| "uploads (e # es) = uploads es"

text \<open>
  A batch of two files, a generator that always rejects, an API that accepts every file
  and answers with its name, and an application state with one folder.
\<close>

definition two_files :: "upload_file list" where
  "two_files = [\<lparr>file_name = ''Part.STL'', file_data = [1, 2]\<rparr>,
                \<lparr>file_name = ''notes.txt'', file_data = []\<rparr>]"

definition failing_gen :: "upload_file \<Rightarrow> string + string" where
  "failing_gen f = Inl ''no rendering context''"

definition accepting_up :: "upload_file \<Rightarrow> string \<Rightarrow> string option \<Rightarrow> string + string" where
  "accepting_up f target thumbnail = Inr (file_name f)"

definition one_folder_app :: "string app" where
  "one_folder_app = \<lparr>folders = [\<lparr>folder_id = ''f1'', folder_name = ''Parts''\<rparr>], models = [],
                      currentFolderId = ''all'', uploadQueue = 0, effects = []\<rparr>"

section \<open>Properties of the normalisation\<close>

lemma add3_zero3 [simp]: "add3 p zero3 = p"
  by (cases p) (simp add: zero3_def)

lemma expandByPoint_translate:
  "expandByPoint (case b of EmptyBox \<Rightarrow> EmptyBox | Box mn mx \<Rightarrow> Box (add3 mn off) (add3 mx off))
     (add3 p off) =
   (case expandByPoint b p of EmptyBox \<Rightarrow> EmptyBox | Box mn mx \<Rightarrow> Box (add3 mn off) (add3 mx off))"
proof (cases b)
  case EmptyBox
  then show ?thesis by simp
next
  case (Box mn mx)
  then show ?thesis
    by (cases mn; cases mx; cases p; cases off) (simp add: min_add_distrib_left min_add_distrib_right max_add_distrib_left max_add_distrib_right)
qed

lemma foldl_expand_translate:
  "foldl expandByPoint
     (case b of EmptyBox \<Rightarrow> EmptyBox | Box mn mx \<Rightarrow> Box (add3 mn off) (add3 mx off))
     (map (\<lambda>p. add3 p off) ps) =
   (case foldl expandByPoint b ps of EmptyBox \<Rightarrow> EmptyBox
    | Box mn mx \<Rightarrow> Box (add3 mn off) (add3 mx off))"
proof (induction ps arbitrary: b)
  case Nil
  then show ?case by simp
next
  case (Cons p ps)
  have "foldl expandByPoint
          (case b of EmptyBox \<Rightarrow> EmptyBox | Box mn mx \<Rightarrow> Box (add3 mn off) (add3 mx off))
          (map (\<lambda>p. add3 p off) (p # ps)) =
        foldl expandByPoint
          (case expandByPoint b p of EmptyBox \<Rightarrow> EmptyBox
           | Box mn mx \<Rightarrow> Box (add3 mn off) (add3 mx off))
          (map (\<lambda>p. add3 p off) ps)"
    by (simp only: list.map foldl_Cons expandByPoint_translate)
  also have "\<dots> = (case foldl expandByPoint (expandByPoint b p) ps of EmptyBox \<Rightarrow> EmptyBox
                    | Box mn mx \<Rightarrow> Box (add3 mn off) (add3 mx off))"
    by (rule Cons.IH)
  finally show ?case by simp
qed

lemma setFromPoints_translate:
  "setFromPoints (map (\<lambda>p. add3 p off) ps) =
   (case setFromPoints ps of EmptyBox \<Rightarrow> EmptyBox
    | Box mn mx \<Rightarrow> Box (add3 mn off) (add3 mx off))"
  using foldl_expand_translate [where b = EmptyBox and off = off and ps = ps] by (simp add: setFromPoints_def)

lemma getCenter_translate_negated:
  "getCenter (case b of EmptyBox \<Rightarrow> EmptyBox
              | Box mn mx \<Rightarrow> Box (add3 mn (negate3 (getCenter b))) (add3 mx (negate3 (getCenter b)))) =
   zero3"
proof (cases b)
  case EmptyBox
  then show ?thesis by simp
next
  case (Box mn mx)
  then show ?thesis
    by (cases mn; cases mx) (simp add: zero3_def field_simps)
qed

lemma getSize_translate:
  "getSize (case b of EmptyBox \<Rightarrow> EmptyBox | Box mn mx \<Rightarrow> Box (add3 mn off) (add3 mx off)) =
   getSize b"
proof (cases b)
  case EmptyBox
  then show ?thesis by simp
next
  case (Box mn mx)
  then show ?thesis by (cases mn; cases mx; cases off) simp
qed

lemma position_center:
  "position (center g) = map (\<lambda>p. add3 p (center_offset g)) (position g)"
  by (simp add: center_def translate_def computeBoundingBox_def center_offset_def Let_def)

lemma normal_center: "normal (center g) = normal g"
  by (simp add: center_def translate_def computeBoundingBox_def Let_def)

lemma centre_of_centered:
  "getCenter (setFromPoints (position (center g))) = zero3"
  unfolding position_center setFromPoints_translate center_offset_def
  by (rule getCenter_translate_negated)

lemma size_of_centered:
  "getSize (setFromPoints (position (center g))) = getSize (setFromPoints (position g))"
  unfolding position_center setFromPoints_translate
  by (rule getSize_translate)

lemma negate3_zero3: "negate3 zero3 = zero3"
  by (simp add: zero3_def)


lemma boundingBox_computeBoundingBox:
  "boundingBox (computeBoundingBox g) = Some (setFromPoints (position g))"
  by (simp add: computeBoundingBox_def)

lemma position_computeBoundingBox: "position (computeBoundingBox g) = position g"
  by (simp add: computeBoundingBox_def)

lemma normal_computeBoundingBox: "normal (computeBoundingBox g) = normal g"
  by (simp add: computeBoundingBox_def)

lemma position_computeVertexNormals: "position (computeVertexNormals cvn g) = position g"
  by (simp add: computeVertexNormals_def)

lemma position_center_centered:
  "getCenter (setFromPoints (position g)) = zero3 \<Longrightarrow> position (center g) = position g"
  by (simp add: position_center center_offset_def negate3_zero3)

lemma Model_effect_Some:
  "Model_effect cvn (Some g) onLoaded =
     (Some (computeBoundingBox (center (computeVertexNormals cvn g))),
      (case onLoaded of
         None \<Rightarrow> []
       | Some f \<Rightarrow>
           [OnLoaded f (getSize (setFromPoints (position (center (computeVertexNormals cvn g)))))]))"
  by (simp add: Model_effect_def Let_def boundingBox_computeBoundingBox
      position_computeBoundingBox split: option.split)

text \<open>
  The scenario of the specification: the triangle (0,0,0), (1,0,0), (0,1,0) is moved to
  the origin and its size (1,1,0) is reported.
\<close>

lemma Model_effect_unit_triangle:
  "Model_effect vertexNormals (Some unit_triangle) (Some 7) =
     (Some \<lparr>position = [Vec3 (- (1 / 2)) (- (1 / 2)) 0, Vec3 (1 / 2) (- (1 / 2)) 0,
                        Vec3 (- (1 / 2)) (1 / 2) 0],
             normal = Some [Vec3 0 0 1, Vec3 0 0 1, Vec3 0 0 1],
             boundingBox = Some (Box (Vec3 (- (1 / 2)) (- (1 / 2)) 0) (Vec3 (1 / 2) (1 / 2) 0))\<rparr>,
      [OnLoaded 7 (Vec3 1 1 0)])"
  by (simp add: Model_effect_def unit_triangle_def Let_def computeVertexNormals_def center_def
      translate_def computeBoundingBox_def center_offset_def setFromPoints_def zero3_def
      vertexNormals_def normalize3_def length3_def)


text \<open>
  C9. Centring is idempotent: for a geometry whose bounding box is centred on the origin
  the offset of the centring step is the zero vector and every position is unchanged; in
  particular a centred geometry centred again keeps its positions, and a second run of the
  effect of \<^verbatim>\<open>Model\<close> on the geometry left by the first run does not move any vertex.
\<close>

theorem centering_idempotent:
  "(getCenter (setFromPoints (position g)) = zero3 \<longrightarrow>
      center_offset g = zero3 \<and> position (center g) = position g)
   \<and> center_offset (center g) = zero3
   \<and> position (center (center g)) = position (center g)
   \<and> (\<forall>g1 g2 c1 c2.
        Model_effect cvn (Some g) f1 = (Some g1, c1) \<and> Model_effect cvn (Some g1) f2 = (Some g2, c2)
        \<longrightarrow> position g2 = position g1)"
proof (intro conjI impI allI)
  assume c: "getCenter (setFromPoints (position g)) = zero3"
  show "center_offset g = zero3"
    by (simp add: center_offset_def c negate3_zero3)
  show "position (center g) = position g"
    using c by (rule position_center_centered)
next
  show "center_offset (center g) = zero3"
    by (simp add: center_offset_def centre_of_centered negate3_zero3)
next
  show "position (center (center g)) = position (center g)"
    by (rule position_center_centered) (rule centre_of_centered)
next
  fix g1 g2 c1 c2
  assume a: "Model_effect cvn (Some g) f1 = (Some g1, c1) \<and>
             Model_effect cvn (Some g1) f2 = (Some g2, c2)"
  from a have g1: "g1 = computeBoundingBox (center (computeVertexNormals cvn g))"
    by (simp add: Model_effect_Some)
  from a have g2: "g2 = computeBoundingBox (center (computeVertexNormals cvn g1))"
    by (simp add: Model_effect_Some)
  have "getCenter (setFromPoints (position g1)) = zero3"
    by (simp only: g1 position_computeBoundingBox centre_of_centered)
  then have "getCenter (setFromPoints (position (computeVertexNormals cvn g1))) = zero3"
    by (simp only: position_computeVertexNormals)
  then have "position (center (computeVertexNormals cvn g1)) =
             position (computeVertexNormals cvn g1)"
    by (rule position_center_centered)
  then show "position g2 = position g1"
    by (simp only: g2 position_computeBoundingBox position_computeVertexNormals)
qed

theorem centering_idempotent_witness:
  "getCenter (setFromPoints (position centered_segment)) = zero3
   \<and> center_offset centered_segment = zero3
   \<and> position (center centered_segment) = position centered_segment
   \<and> (\<exists>g1 c1. Model_effect vertexNormals (Some centered_segment) None = (Some g1, c1)
        \<and> (\<exists>g2 c2. Model_effect vertexNormals (Some g1) None = (Some g2, c2)
             \<and> position g2 = position g1))"
proof -
  have c: "getCenter (setFromPoints (position centered_segment)) = zero3"
    by (simp add: centered_segment_def setFromPoints_def zero3_def)
  obtain g1 c1 where e1: "Model_effect vertexNormals (Some centered_segment) None = (Some g1, c1)"
    by (simp add: Model_effect_Some)
  obtain g2 c2 where e2: "Model_effect vertexNormals (Some g1) None = (Some g2, c2)"
    by (simp add: Model_effect_Some)
  from centering_idempotent [of centered_segment vertexNormals None None] c e1 e2
  show ?thesis by blast
qed

lemma normalize3_zero3: "normalize3 zero3 = zero3"
  by (simp add: normalize3_def length3_def zero3_def)

lemma length3_normalize3: "v \<noteq> zero3 \<Longrightarrow> length3 (normalize3 v) = 1"
proof -
  assume nz: "v \<noteq> zero3"
  obtain a b c where v: "v = Vec3 a b c" by (cases v)
  let ?q = "a * a + b * b + c * c"
  from nz v have "a \<noteq> 0 \<or> b \<noteq> 0 \<or> c \<noteq> 0" by (simp add: zero3_def)
  then have pos: "0 < ?q"
    by (metis add_pos_nonneg add_nonneg_pos not_real_square_gt_zero zero_le_square add_nonneg_nonneg)
  then have l: "0 < sqrt ?q" by simp
  have n: "normalize3 v = Vec3 (a / sqrt ?q) (b / sqrt ?q) (c / sqrt ?q)"
    using l by (simp add: v normalize3_def length3_def)
  have "dot3 (normalize3 v) (normalize3 v) = 1"
    using pos by (simp add: n flip: add_divide_distrib)
  then show ?thesis by (simp add: length3_def)
qed

lemma vertexNormals_triangle:
  "vertexNormals (pA # pB # pC # ps) =
     (let n = normalize3 (cross3 (sub3 pC pB) (sub3 pA pB)) in n # n # n # vertexNormals ps)"
  by (simp add: vertexNormals_def Let_def)

text \<open>
  C5, as the code has it. The effect calls \<^verbatim>\<open>computeVertexNormals\<close> on every run, with no
  test of the normals the loader supplied: whatever normals the geometry carried, the
  result carries the normals computed from the positions the effect was given. What
  three.js computes is, for the three vertices of each triangle, the face normal of that
  triangle alone: scaled to unit length when the triangle has an area, the zero vector
  when it has none.
\<close>

theorem normals_always_recomputed:
  "(\<exists>g'. fst (Model_effect cvn (Some g) onLoaded) = Some g'
       \<and> normal g' = Some (cvn (position g)))
   \<and> vertexNormals (pA # pB # pC # ps) =
       (let n = normalize3 (cross3 (sub3 pC pB) (sub3 pA pB)) in n # n # n # vertexNormals ps)
   \<and> (cross3 (sub3 pC pB) (sub3 pA pB) \<noteq> zero3 \<longrightarrow>
        length3 (normalize3 (cross3 (sub3 pC pB) (sub3 pA pB))) = 1)
   \<and> (cross3 (sub3 pC pB) (sub3 pA pB) = zero3 \<longrightarrow>
        normalize3 (cross3 (sub3 pC pB) (sub3 pA pB)) = zero3)"
proof (intro conjI impI)
  show "\<exists>g'. fst (Model_effect cvn (Some g) onLoaded) = Some g'
       \<and> normal g' = Some (cvn (position g))"
    by (simp add: Model_effect_Some normal_computeBoundingBox normal_center
        computeVertexNormals_def)
  show "vertexNormals (pA # pB # pC # ps) =
       (let n = normalize3 (cross3 (sub3 pC pB) (sub3 pA pB)) in n # n # n # vertexNormals ps)"
    by (rule vertexNormals_triangle)
next
  assume "cross3 (sub3 pC pB) (sub3 pA pB) \<noteq> zero3"
  then show "length3 (normalize3 (cross3 (sub3 pC pB) (sub3 pA pB))) = 1"
    by (rule length3_normalize3)
next
  assume "cross3 (sub3 pC pB) (sub3 pA pB) = zero3"
  then show "normalize3 (cross3 (sub3 pC pB) (sub3 pA pB)) = zero3"
    by (simp add: normalize3_zero3)
qed

theorem normals_always_recomputed_witness:
  "cross3 (sub3 (Vec3 0 1 0) (Vec3 1 0 0)) (sub3 (Vec3 0 0 0) (Vec3 1 0 0)) \<noteq> zero3
   \<and> length3 (normalize3 (cross3 (sub3 (Vec3 0 1 0) (Vec3 1 0 0)) (sub3 (Vec3 0 0 0) (Vec3 1 0 0)))) = 1
   \<and> cross3 (sub3 (Vec3 2 0 0) (Vec3 1 0 0)) (sub3 (Vec3 0 0 0) (Vec3 1 0 0)) = zero3
   \<and> normalize3 (cross3 (sub3 (Vec3 2 0 0) (Vec3 1 0 0)) (sub3 (Vec3 0 0 0) (Vec3 1 0 0))) = zero3"
proof -
  have a: "cross3 (sub3 (Vec3 0 1 0) (Vec3 1 0 0)) (sub3 (Vec3 0 0 0) (Vec3 1 0 0)) \<noteq> zero3"
    by (simp add: zero3_def)
  have b: "cross3 (sub3 (Vec3 2 0 0) (Vec3 1 0 0)) (sub3 (Vec3 0 0 0) (Vec3 1 0 0)) = zero3"
    by (simp add: zero3_def)
  from normals_always_recomputed
         [where pA = "Vec3 0 0 0" and pB = "Vec3 1 0 0" and pC = "Vec3 0 1 0"] a
  have "length3 (normalize3
          (cross3 (sub3 (Vec3 0 1 0) (Vec3 1 0 0)) (sub3 (Vec3 0 0 0) (Vec3 1 0 0)))) = 1"
    by blast
  moreover from normals_always_recomputed
         [where pA = "Vec3 0 0 0" and pB = "Vec3 1 0 0" and pC = "Vec3 2 0 0"] b
  have "normalize3
          (cross3 (sub3 (Vec3 2 0 0) (Vec3 1 0 0)) (sub3 (Vec3 0 0 0) (Vec3 1 0 0))) = zero3"
    by blast
  ultimately show ?thesis using a b by blast
qed

lemmas geometry_eval = Model_effect_def Let_def computeVertexNormals_def center_def
  translate_def computeBoundingBox_def center_offset_def setFromPoints_def zero3_def
  vertexNormals_def normalize3_def length3_def

text \<open>
  The claim as stated fails in each part: a triangle loaded with supplied normals
  (0,0,-1) leaves the effect with computed normals (0,0,1); the vertices of a triangle
  of area zero get the zero vector, which is not of unit length; and the position shared
  by two triangles in different planes gets the normal (0,0,1) as a vertex of the first
  and (1,0,0) as a vertex of the second, not one average of the two face normals.
\<close>

theorem supplied_normals_kept_counterexample:
  "normal unit_triangle = Some [Vec3 0 0 (- 1), Vec3 0 0 (- 1), Vec3 0 0 (- 1)]
   \<and> map_option normal (fst (Model_effect vertexNormals (Some unit_triangle) None)) =
       Some (Some [Vec3 0 0 1, Vec3 0 0 1, Vec3 0 0 1])
   \<and> map_option normal (fst (Model_effect vertexNormals (Some unit_triangle) None)) \<noteq>
       Some (normal unit_triangle)
   \<and> map_option normal (fst (Model_effect vertexNormals (Some flat_triangle) None)) =
       Some (Some [Vec3 0 0 0, Vec3 0 0 0, Vec3 0 0 0])
   \<and> length3 (Vec3 0 0 0) \<noteq> 1
   \<and> map_option position (fst (Model_effect vertexNormals (Some folded_pair) None)) =
       Some [Vec3 (- (1 / 2)) (- (1 / 2)) (- (1 / 2)), Vec3 (1 / 2) (- (1 / 2)) (- (1 / 2)),
             Vec3 (- (1 / 2)) (1 / 2) (- (1 / 2)),
             Vec3 (- (1 / 2)) (- (1 / 2)) (- (1 / 2)), Vec3 (- (1 / 2)) (1 / 2) (- (1 / 2)),
             Vec3 (- (1 / 2)) (- (1 / 2)) (1 / 2)]
   \<and> map_option normal (fst (Model_effect vertexNormals (Some folded_pair) None)) =
       Some (Some [Vec3 0 0 1, Vec3 0 0 1, Vec3 0 0 1, Vec3 1 0 0, Vec3 1 0 0, Vec3 1 0 0])"
  by (simp add: geometry_eval unit_triangle_def flat_triangle_def folded_pair_def)

text \<open>
  C7, as the code has it. For a geometry without any vertex the effect does not fail: it
  leaves a geometry without vertices whose bounding box is the empty box, reports the size
  (0,0,0) when a callback is given, and \<^verbatim>\<open>Model\<close> returns the mesh element for that
  geometry like for any other.
\<close>

theorem empty_mesh_is_normalized_and_rendered:
  "position g = [] \<Longrightarrow>
     (\<exists>g'. Model_effect cvn (Some g) onLoaded =
             (Some g', (case onLoaded of None \<Rightarrow> [] | Some f \<Rightarrow> [OnLoaded f zero3]))
          \<and> position g' = [] \<and> boundingBox g' = Some EmptyBox)
     \<and> Model_render (Some g) color =
         Mesh (Some g) (case color of None \<Rightarrow> ''#3b82f6'' | Some c \<Rightarrow> c)"
proof -
  assume e: "position g = []"
  have p: "position (center (computeVertexNormals cvn g)) = []"
    by (simp add: position_center position_computeVertexNormals e)
  have "\<exists>g'. Model_effect cvn (Some g) onLoaded =
           (Some g', (case onLoaded of None \<Rightarrow> [] | Some f \<Rightarrow> [OnLoaded f zero3]))
         \<and> position g' = [] \<and> boundingBox g' = Some EmptyBox"
    by (simp add: Model_effect_Some p position_computeBoundingBox boundingBox_computeBoundingBox
        setFromPoints_def split: option.split)
  moreover have "Model_render (Some g) color =
      Mesh (Some g) (case color of None \<Rightarrow> ''#3b82f6'' | Some c \<Rightarrow> c)"
    by (simp add: Model_render_def)
  ultimately show ?thesis by blast
qed

theorem empty_mesh_is_normalized_and_rendered_witness:
  "position empty_geometry = []
   \<and> (\<exists>g'. Model_effect vertexNormals (Some empty_geometry) (Some 7) = (Some g', [OnLoaded 7 zero3])
          \<and> position g' = [] \<and> boundingBox g' = Some EmptyBox)
   \<and> Model_render (Some empty_geometry) None = Mesh (Some empty_geometry) ''#3b82f6''"
proof -
  have e: "position empty_geometry = []"
    by (simp add: empty_geometry_def)
  from empty_mesh_is_normalized_and_rendered [OF e, of vertexNormals "Some 7" None] e
  show ?thesis by simp
qed

text \<open>
  The claim as stated fails on the geometry without vertices: the effect returns a
  geometry and reports a size, and the mesh element is returned.
\<close>

theorem empty_mesh_fails_counterexample:
  "Model_effect vertexNormals (Some empty_geometry) (Some 7) =
     (Some \<lparr>position = [], normal = Some [], boundingBox = Some EmptyBox\<rparr>,
      [OnLoaded 7 (Vec3 0 0 0)])
   \<and> Model_render (Some empty_geometry) None = Mesh (Some empty_geometry) ''#3b82f6''"
  by (simp add: Model_effect_def empty_geometry_def Let_def computeVertexNormals_def center_def
      translate_def computeBoundingBox_def center_offset_def setFromPoints_def zero3_def
      Model_render_def vertexNormals_def)

section \<open>Properties of a viewer session\<close>

lemma Model_effect_calls:
  "snd (Model_effect cvn geom onLoaded) = [] \<or>
   (\<exists>f v. snd (Model_effect cvn geom onLoaded) = [OnLoaded f v])"
proof (cases geom)
  case None
  then show ?thesis by (simp add: Model_effect_def)
next
  case (Some g)
  then show ?thesis by (cases onLoaded) (simp_all add: Model_effect_Some)
qed

lemma Model_commit_no_OnError:
  "Model_commit cvn ref onLoaded prev heap = (d, h, calls) \<Longrightarrow> count_list calls OnError = 0"
  using Model_effect_calls [of cvn "heap ref" onLoaded]
  by (auto simp: Model_commit_def split: if_splits prod.splits)

lemma reconcile_fields [simp]:
  "s_error (reconcile s) = s_error s" "s_log (reconcile s) = s_log s"
  "s_url (reconcile s) = s_url s" "s_pending (reconcile s) = s_pending s"
  by (simp_all add: reconcile_def split: view.splits option.splits)

lemma rerender_fields [simp]:
  "s_error (Viewer3D_rerender s) = (s_error s \<or> s_pending s)"
  "s_log (Viewer3D_rerender s) = s_log s"
  "s_url (Viewer3D_rerender s) = s_url s"
  "s_pending (Viewer3D_rerender s) = False"
  by (simp_all add: Viewer3D_rerender_def)

lemma boundary_catch_fields [simp]:
  "s_error (boundary_catch s) = s_error s"
  "s_log (boundary_catch s) = s_log s @ [OnError]"
  "s_url (boundary_catch s) = s_url s"
  "s_pending (boundary_catch s) = True"
  by (simp_all add: boundary_catch_def componentDidCatch_def Viewer3D_onError_def Let_def
      split: option.splits)

lemma rendered_url_boundary_catch [simp]: "rendered_url (boundary_catch s) = None"
  by (simp add: rendered_url_def boundary_catch_def componentDidCatch_def Viewer3D_onError_def
      Let_def getDerivedStateFromError_def ErrorBoundary_render_def split: view.splits)

lemma rendered_url_not_error: "rendered_url s = Some u \<Longrightarrow> \<not> s_error s \<and> \<not> falsy (s_url s)"
  by (auto simp: rendered_url_def Viewer3D_render_def falsy_def
      split: view.splits option.splits if_splits)

lemma rendered_url_error: "s_error s \<Longrightarrow> rendered_url s = None"
  using rendered_url_not_error [of s] by (cases "rendered_url s") auto

lemma rendered_url_falsy: "falsy (s_url s) \<Longrightarrow> rendered_url s = None"
  using rendered_url_not_error [of s] by (cases "rendered_url s") auto

lemma Viewer3D_render_error:
  "Viewer3D_render url True = (if falsy url then NoModelSelected else ErrorLoadingModel)"
  by (simp add: Viewer3D_render_def falsy_def split: option.split)

lemma Viewer3D_render_falsy: "falsy url \<Longrightarrow> Viewer3D_render url error = NoModelSelected"
  by (simp add: Viewer3D_render_def falsy_def split: option.splits)

lemma step_Escapes:
  "s_error (step cvn Escapes s) = s_error s" "s_pending (step cvn Escapes s) = s_pending s"
  "s_url (step cvn Escapes s) = s_url s" "s_boundary (step cvn Escapes s) = s_boundary s"
  "count_list (s_log (step cvn Escapes s)) OnError = count_list (s_log s) OnError"
  by (cases "Viewer3D_render (s_url s) (s_error s)"; simp add: step_def)+

lemma step_error_persists:
  "s_error s \<Longrightarrow> s_error (step cvn ev s) \<and> s_log (step cvn ev s) = s_log s"
proof (cases ev)
  case (SetProps url onLoaded)
  assume "s_error s"
  then show ?thesis using SetProps by (simp add: step_def)
next
  case (FullscreenChange b)
  assume "s_error s"
  then show ?thesis using FullscreenChange by (simp add: step_def)
next
  case Flush
  assume "s_error s"
  then show ?thesis using Flush by (simp add: step_def)
next
  case (Render outcome)
  assume e: "s_error s"
  then have "rendered_url s = None" by (rule rendered_url_error)
  then show ?thesis using Render e by (simp add: step_def)
next
  case Escapes
  assume e: "s_error s"
  then have "Viewer3D_render (s_url s) (s_error s) \<noteq> CanvasView u" for u
    by (simp add: Viewer3D_render_error)
  then show ?thesis using Escapes e by (simp add: step_def split: view.splits)
qed

lemma run_error_persists:
  "s_error s \<Longrightarrow> s_error (run cvn evs s) \<and> s_log (run cvn evs s) = s_log s"
proof (induction evs arbitrary: s)
  case Nil
  then show ?case by simp
next
  case (Cons ev evs)
  from step_error_persists [OF Cons.prems, of cvn ev]
  have "s_error (step cvn ev s)" and l: "s_log (step cvn ev s) = s_log s" by simp_all
  from Cons.IH [OF this(1)] l show ?case by simp
qed

lemma step_Render_rendered:
  "rendered_url s = Some u \<Longrightarrow> \<not> s_pending s \<Longrightarrow> count_list (s_log s) OnError = 0 \<Longrightarrow>
   onError_inv (step cvn (Render outcome) s)
   \<and> (raised cvn (Render outcome) s \<longrightarrow> s_pending (step cvn (Render outcome) s))"
proof (cases outcome)
  case Suspends
  assume "rendered_url s = Some u" "\<not> s_pending s" "count_list (s_log s) OnError = 0"
  then show ?thesis using Suspends
    by (simp add: step_def onError_inv_def rendered_url_not_error)
next
  case Throws
  assume "rendered_url s = Some u" "\<not> s_pending s" "count_list (s_log s) OnError = 0"
  then show ?thesis using Throws
    by (simp add: step_def onError_inv_def rendered_url_not_error)
next
  case (Returns ref throws)
  assume r: "rendered_url s = Some u" and p: "\<not> s_pending s"
    and z: "count_list (s_log s) OnError = 0"
  obtain d h calls where
    c: "Model_commit cvn ref (s_onLoaded s) (s_deps s) (s_heap s) = (d, h, calls)"
    by (cases "Model_commit cvn ref (s_onLoaded s) (s_deps s) (s_heap s)") auto
  from Model_commit_no_OnError [OF c] have n: "count_list calls OnError = 0" .
  from r have e: "\<not> s_error s" by (simp add: rendered_url_not_error)
  show ?thesis
    using Returns r p z c n e
    by (cases "throws \<and> calls \<noteq> []") (simp_all add: step_def onError_inv_def Let_def)
qed

lemma step_onError_inv: "onError_inv s \<Longrightarrow> onError_inv (step cvn ev s)"
proof (cases ev)
  case (SetProps url onLoaded)
  assume "onError_inv s"
  then show ?thesis using SetProps by (simp add: step_def onError_inv_def)
next
  case (FullscreenChange b)
  assume "onError_inv s"
  then show ?thesis using FullscreenChange by (simp add: step_def onError_inv_def)
next
  case Flush
  assume "onError_inv s"
  then show ?thesis using Flush by (simp add: step_def onError_inv_def)
next
  case Escapes
  assume i: "onError_inv s"
  have "rendered_url (step cvn Escapes s) = rendered_url s"
    by (simp only: rendered_url_def step_Escapes)
  with i show ?thesis using Escapes by (simp add: onError_inv_def step_Escapes)
next
  case (Render outcome)
  assume i: "onError_inv s"
  show ?thesis
  proof (cases "rendered_url s")
    case None
    then show ?thesis using Render i by (simp add: step_def)
  next
    case (Some u)
    with i have p: "\<not> s_pending s" by (auto simp: onError_inv_def)
    from Some have "\<not> s_error s" by (simp add: rendered_url_not_error)
    with i p have z: "count_list (s_log s) OnError = 0" by (simp add: onError_inv_def)
    from step_Render_rendered [OF Some p z] show ?thesis using Render by simp
  qed
qed

lemma run_onError_inv: "onError_inv s \<Longrightarrow> onError_inv (run cvn evs s)"
  by (induction evs arbitrary: s) (simp_all add: step_onError_inv)

lemma mount_onError_inv: "onError_inv (Viewer3D_mount url onLoaded heap)"
  by (simp add: Viewer3D_mount_def onError_inv_def)

lemma step_errored:
  "onError_inv s \<Longrightarrow> s_error s \<or> s_pending s \<Longrightarrow>
   s_error (step cvn ev s) \<or> s_pending (step cvn ev s)"
proof (cases ev)
  case (Render outcome)
  assume i: "onError_inv s" and e: "s_error s \<or> s_pending s"
  then have "rendered_url s = None"
    by (auto simp: onError_inv_def rendered_url_error)
  then show ?thesis using Render e by (simp add: step_def)
next
  case Escapes
  assume "s_error s \<or> s_pending s"
  then show ?thesis using Escapes by (simp add: step_Escapes)
qed (auto simp: step_def)

lemma run_errored:
  "onError_inv s \<Longrightarrow> s_error s \<or> s_pending s \<Longrightarrow>
   s_error (run cvn evs s) \<or> s_pending (run cvn evs s)"
proof (induction evs arbitrary: s)
  case Nil
  then show ?case by simp
next
  case (Cons ev evs)
  from step_onError_inv [OF Cons.prems(1)] step_errored [OF Cons.prems]
  show ?case using Cons.IH by simp
qed

lemma run_append: "run cvn (xs @ ys) s = run cvn ys (run cvn xs s)"
  by (induction xs arbitrary: s) simp_all

lemma raised_rendered: "raised cvn ev s \<Longrightarrow> \<exists>outcome u. ev = Render outcome \<and> rendered_url s = Some u"
  by (induction cvn ev s rule: raised.induct) auto

text \<open>
  C4, as the code has it. In every session \<^verbatim>\<open>onError\<close> is called at most once. When an
  exception is raised below the boundary (a throwing render of the \<^verbatim>\<open>Model\<close>, or an
  \<^verbatim>\<open>onLoaded\<close> that throws inside the layout effect), \<^verbatim>\<open>onError\<close> had not been called
  and the error state was not set before; after any further events (more throwing
  renders included) \<^verbatim>\<open>onError\<close> has been called exactly once and the \<^verbatim>\<open>Model\<close> is not
  rendered; and from the next render of \<^verbatim>\<open>Viewer3D\<close> on the error state is set. An
  exception raised in the canvas outside the children of the boundary does not call
  \<^verbatim>\<open>onError\<close> and does not set the error state.
\<close>

theorem onError_exactly_once:
  "count_list (s_log (run cvn evs (Viewer3D_mount url onLoaded heap))) OnError \<le> 1
   \<and> (raised cvn ev (run cvn evs (Viewer3D_mount url onLoaded heap)) \<longrightarrow>
        count_list (s_log (run cvn evs (Viewer3D_mount url onLoaded heap))) OnError = 0
        \<and> \<not> s_error (run cvn evs (Viewer3D_mount url onLoaded heap))
        \<and> count_list (s_log (run cvn (evs @ ev # evs') (Viewer3D_mount url onLoaded heap)))
             OnError = 1
        \<and> rendered_url (run cvn (evs @ ev # evs') (Viewer3D_mount url onLoaded heap)) = None
        \<and> s_error (run cvn (evs @ ev # evs' @ Flush # evs'')
                      (Viewer3D_mount url onLoaded heap)))
   \<and> count_list (s_log (step cvn Escapes s)) OnError = count_list (s_log s) OnError
   \<and> s_error (step cvn Escapes s) = s_error s
   \<and> s_pending (step cvn Escapes s) = s_pending s"
proof -
  let ?m = "Viewer3D_mount url onLoaded heap"
  let ?s = "run cvn evs ?m"
  have inv: "onError_inv ?s"
    by (rule run_onError_inv) (rule mount_onError_inv)
  then have le: "count_list (s_log ?s) OnError \<le> 1"
    by (simp add: onError_inv_def split: if_splits)
  have "count_list (s_log ?s) OnError = 0 \<and> \<not> s_error ?s
        \<and> count_list (s_log (run cvn (evs @ ev # evs') ?m)) OnError = 1
        \<and> rendered_url (run cvn (evs @ ev # evs') ?m) = None
        \<and> s_error (run cvn (evs @ ev # evs' @ Flush # evs'') ?m)"
    if r: "raised cvn ev ?s"
  proof -
    from raised_rendered [OF r] obtain outcome u
      where ev: "ev = Render outcome" and u: "rendered_url ?s = Some u" by auto
    from u have ne: "\<not> s_error ?s" by (simp add: rendered_url_not_error)
    from u inv have np: "\<not> s_pending ?s" by (auto simp: onError_inv_def)
    from inv ne np have z: "count_list (s_log ?s) OnError = 0" by (simp add: onError_inv_def)
    let ?t = "step cvn ev ?s"
    from step_Render_rendered [OF u np z, of cvn outcome] r ev
    have it: "onError_inv ?t" and pt: "s_pending ?t" by simp_all
    let ?v = "run cvn evs' ?t"
    have iv: "onError_inv ?v" using it by (rule run_onError_inv)
    have ev': "s_error ?v \<or> s_pending ?v" using it pt by (simp add: run_errored)
    have split1: "run cvn (evs @ ev # evs') ?m = ?v"
      by (simp add: run_append)
    have c1: "count_list (s_log ?v) OnError = 1"
      using iv ev' by (auto simp: onError_inv_def)
    have r1: "rendered_url ?v = None"
      using iv ev' by (auto simp: onError_inv_def rendered_url_error)
    have "s_error (step cvn Flush ?v)" using ev' by (auto simp: step_def)
    from run_error_persists [OF this, of cvn evs'']
    have "s_error (run cvn evs'' (step cvn Flush ?v))" by simp
    moreover have "run cvn (evs @ ev # evs' @ Flush # evs'') ?m = run cvn evs'' (step cvn Flush ?v)"
      by (simp add: run_append)
    ultimately have e2: "s_error (run cvn (evs @ ev # evs' @ Flush # evs'') ?m)" by simp
    from z ne c1 r1 e2 show ?thesis by (simp add: split1)
  qed
  with le show ?thesis by (simp add: step_Escapes)
qed

lemmas session_eval = Viewer3D_mount_def reconcile_def Viewer3D_rerender_def Viewer3D_render_def
  step_def rendered_url_def ErrorBoundary_render_def ErrorBoundary_constructor_def
  getDerivedStateFromError_def componentDidCatch_def Viewer3D_onError_def boundary_catch_def
  Model_commit_def unit_store_def unit_triangle_def

theorem onError_exactly_once_witness:
  "raised vertexNormals (Render Throws)
     (run vertexNormals [Render Suspends] (Viewer3D_mount (Some ''a.stl'') (Some 7) unit_store))
   \<and> count_list (s_log (run vertexNormals
        ([Render Suspends] @ Render Throws # [Render Throws, Escapes, Render (Returns 0 True)])
        (Viewer3D_mount (Some ''a.stl'') (Some 7) unit_store))) OnError = 1
   \<and> s_error (run vertexNormals
        ([Render Suspends] @ Render Throws # [Render Throws, Escapes, Render (Returns 0 True)]
           @ Flush # [SetProps (Some ''b.stl'') None, Render Throws])
        (Viewer3D_mount (Some ''a.stl'') (Some 7) unit_store))
   \<and> raised vertexNormals (Render (Returns 0 True))
        (run vertexNormals [] (Viewer3D_mount (Some ''a.stl'') (Some 7) unit_store))
   \<and> count_list (s_log (run vertexNormals
        ([] @ Render (Returns 0 True) # [Render Throws, Render (Returns 0 True)])
        (Viewer3D_mount (Some ''a.stl'') (Some 7) unit_store))) OnError = 1"
proof -
  have r: "raised vertexNormals (Render Throws)
             (run vertexNormals [Render Suspends]
                (Viewer3D_mount (Some ''a.stl'') (Some 7) unit_store))"
    by (simp add: session_eval)
  have r': "raised vertexNormals (Render (Returns 0 True))
              (run vertexNormals [] (Viewer3D_mount (Some ''a.stl'') (Some 7) unit_store))"
    by (simp add: session_eval geometry_eval)
  from onError_exactly_once
         [where cvn = vertexNormals and evs = "[Render Suspends]" and url = "Some ''a.stl''"
            and onLoaded = "Some 7" and heap = unit_store and ev = "Render Throws"
            and evs' = "[Render Throws, Escapes, Render (Returns 0 True)]"
            and evs'' = "[SetProps (Some ''b.stl'') None, Render Throws]"] r
  have a: "count_list (s_log (run vertexNormals
        ([Render Suspends] @ Render Throws # [Render Throws, Escapes, Render (Returns 0 True)])
        (Viewer3D_mount (Some ''a.stl'') (Some 7) unit_store))) OnError = 1
     \<and> s_error (run vertexNormals
        ([Render Suspends] @ Render Throws # [Render Throws, Escapes, Render (Returns 0 True)]
           @ Flush # [SetProps (Some ''b.stl'') None, Render Throws])
        (Viewer3D_mount (Some ''a.stl'') (Some 7) unit_store))"
    by blast
  from onError_exactly_once
         [where cvn = vertexNormals and evs = "[]" and url = "Some ''a.stl''"
            and onLoaded = "Some 7" and heap = unit_store and ev = "Render (Returns 0 True)"
            and evs' = "[Render Throws, Render (Returns 0 True)]"] r'
  have b: "count_list (s_log (run vertexNormals
        ([] @ Render (Returns 0 True) # [Render Throws, Render (Returns 0 True)])
        (Viewer3D_mount (Some ''a.stl'') (Some 7) unit_store))) OnError = 1"
    by blast
  from r r' a b show ?thesis by blast
qed

text \<open>
  The claim as stated fails: a session whose model is loaded and in which an exception is
  raised twice outside the children of the boundary has no call of \<^verbatim>\<open>onError\<close>, is not in
  the error state and still renders the model.
\<close>

theorem uncaught_exception_counterexample:
  "s_log (run vertexNormals [Render (Returns 0 False), Escapes, Escapes, Flush]
            (Viewer3D_mount (Some ''a.stl'') (Some 7) unit_store)) =
     [UseLoader ''a.stl'', OnLoaded 7 (Vec3 1 1 0), Uncaught, Uncaught]
   \<and> \<not> s_error (run vertexNormals [Render (Returns 0 False), Escapes, Escapes, Flush]
                   (Viewer3D_mount (Some ''a.stl'') (Some 7) unit_store))
   \<and> rendered_url (run vertexNormals [Render (Returns 0 False), Escapes, Escapes, Flush]
                      (Viewer3D_mount (Some ''a.stl'') (Some 7) unit_store)) = Some ''a.stl''"
  by (simp add: session_eval geometry_eval)

text \<open>
  A throw of \<^verbatim>\<open>onLoaded\<close> inside the layout effect: the size has been reported, the
  boundary catches the exception and \<^verbatim>\<open>onError\<close> is called once.
\<close>

lemma effect_throw_is_caught:
  "s_log (run vertexNormals [Render (Returns 0 True), Flush, Render Throws]
            (Viewer3D_mount (Some ''a.stl'') (Some 7) unit_store)) =
     [UseLoader ''a.stl'', OnLoaded 7 (Vec3 1 1 0), OnError]"
  by (simp add: session_eval geometry_eval)

text \<open>
  A render that suspends between two completed renders of the same geometry with the same
  callback: the size is reported twice.
\<close>

lemma resuspended_model_reports_again:
  "s_log (run vertexNormals [Render (Returns 0 False), Render Suspends, Render (Returns 0 False)]
            (Viewer3D_mount (Some ''a.stl'') (Some 7) unit_store)) =
     [UseLoader ''a.stl'', OnLoaded 7 (Vec3 1 1 0), UseLoader ''a.stl'',
      UseLoader ''a.stl'', OnLoaded 7 (Vec3 1 1 0)]"
  by (simp add: session_eval geometry_eval)

lemma mount_not_error: "\<not> s_error (Viewer3D_mount url onLoaded heap)"
  by (simp add: Viewer3D_mount_def)

lemma mount_rendered_url: "\<not> falsy url \<Longrightarrow> rendered_url (Viewer3D_mount url onLoaded heap) = url"
  by (cases url) (simp_all add: session_eval falsy_def)

text \<open>
  C2, as the code has it. Once the error state is set it stays set whatever events
  follow, new URLs included: the model is not rendered again, no call is made, and
  \<^verbatim>\<open>Viewer3D\<close> returns the "Error loading model" placeholder ("No model selected" when
  the URL is absent or empty). A newly mounted \<^verbatim>\<open>Viewer3D\<close> is not in the error state
  and renders the model for its URL.
\<close>

theorem error_persists_across_urls:
  "(s_error s \<longrightarrow>
      s_error (run cvn evs s) \<and> s_log (run cvn evs s) = s_log s
      \<and> rendered_url (run cvn evs s) = None
      \<and> Viewer3D_render (s_url (run cvn evs s)) (s_error (run cvn evs s)) =
          (if falsy (s_url (run cvn evs s)) then NoModelSelected else ErrorLoadingModel))
   \<and> \<not> s_error (Viewer3D_mount url onLoaded heap)
   \<and> (\<not> falsy url \<longrightarrow> rendered_url (Viewer3D_mount url onLoaded heap) = url)"
proof (intro conjI impI)
  assume e: "s_error s"
  from run_error_persists [OF e, of cvn evs]
  show e': "s_error (run cvn evs s)" and "s_log (run cvn evs s) = s_log s" by simp_all
  from e' show "rendered_url (run cvn evs s) = None" by (rule rendered_url_error)
  from e' show "Viewer3D_render (s_url (run cvn evs s)) (s_error (run cvn evs s)) =
          (if falsy (s_url (run cvn evs s)) then NoModelSelected else ErrorLoadingModel)"
    by (simp only: Viewer3D_render_error)
next
  show "\<not> s_error (Viewer3D_mount url onLoaded heap)" by (rule mount_not_error)
next
  assume "\<not> falsy url"
  then show "rendered_url (Viewer3D_mount url onLoaded heap) = url" by (rule mount_rendered_url)
qed

theorem error_persists_across_urls_witness:
  "s_error errored_session
   \<and> s_error (run vertexNormals [SetProps (Some ''b.stl'') None, Render (Returns 0 False)]
        errored_session)
   \<and> s_log (run vertexNormals [SetProps (Some ''b.stl'') None, Render (Returns 0 False)]
        errored_session) = s_log errored_session
   \<and> \<not> falsy (Some ''b.stl'')
   \<and> rendered_url (Viewer3D_mount (Some ''b.stl'') None unit_store) = Some ''b.stl''"
proof -
  have e: "s_error errored_session"
    by (simp add: errored_session_def session_eval)
  have f: "\<not> falsy (Some ''b.stl'')"
    by (simp add: falsy_def)
  from error_persists_across_urls [of errored_session vertexNormals
      "[SetProps (Some ''b.stl'') None, Render (Returns 0 False)]" "Some ''b.stl''" None unit_store]
    e f
  show ?thesis by blast
qed

text \<open>
  The claim as stated fails: after a throwing render for \<^verbatim>\<open>a.stl\<close> the props change
  to \<^verbatim>\<open>b.stl\<close>; the session is still in the error state, the placeholder is returned,
  and no load of \<^verbatim>\<open>b.stl\<close> is started.
\<close>

theorem new_url_after_error_counterexample:
  "s_url (run vertexNormals [SetProps (Some ''b.stl'') None, Render (Returns 0 False)]
            errored_session) = Some ''b.stl''
   \<and> s_error (run vertexNormals [SetProps (Some ''b.stl'') None, Render (Returns 0 False)]
        errored_session)
   \<and> Viewer3D_render
        (s_url (run vertexNormals [SetProps (Some ''b.stl'') None, Render (Returns 0 False)]
                  errored_session))
        (s_error (run vertexNormals [SetProps (Some ''b.stl'') None, Render (Returns 0 False)]
                    errored_session))
       = ErrorLoadingModel
   \<and> s_log (run vertexNormals [SetProps (Some ''b.stl'') None, Render (Returns 0 False)]
        errored_session) = [UseLoader ''a.stl'', UseLoader ''a.stl'', OnError]"
  by (simp add: errored_session_def session_eval)

lemma step_no_url:
  "falsy (s_url s) \<Longrightarrow> keeps_no_url ev \<Longrightarrow>
   falsy (s_url (step cvn ev s)) \<and> s_log (step cvn ev s) = s_log s"
proof (cases ev)
  case Escapes
  assume "falsy (s_url s)"
  then have "Viewer3D_render (s_url s) (s_error s) = NoModelSelected"
    by (rule Viewer3D_render_falsy)
  then show ?thesis using Escapes \<open>falsy (s_url s)\<close> by (simp add: step_def)
qed (simp_all add: step_def rendered_url_falsy)

lemma run_no_url:
  "falsy (s_url s) \<Longrightarrow> list_all keeps_no_url evs \<Longrightarrow>
   falsy (s_url (run cvn evs s)) \<and> s_log (run cvn evs s) = s_log s"
proof (induction evs arbitrary: s)
  case Nil
  then show ?case by simp
next
  case (Cons ev evs)
  from Cons.prems have k: "keeps_no_url ev" and ks: "list_all keeps_no_url evs" by simp_all
  from step_no_url [OF Cons.prems(1) k, of cvn]
  have f: "falsy (s_url (step cvn ev s))" and l: "s_log (step cvn ev s) = s_log s" by simp_all
  from Cons.IH [OF f ks] l show ?case by simp
qed

lemma mount_fields: "s_url (Viewer3D_mount url onLoaded heap) = url"
  "s_log (Viewer3D_mount url onLoaded heap) = []"
  by (simp_all add: Viewer3D_mount_def)

text \<open>
  C10. With an absent or empty URL \<^verbatim>\<open>Viewer3D\<close> returns the "No model selected"
  placeholder, whatever the error state; while the URL stays absent or empty the model is
  not rendered and no call is made: no \<^verbatim>\<open>useLoader\<close>, no \<^verbatim>\<open>onLoaded\<close>, no
  \<^verbatim>\<open>onError\<close>.
\<close>

theorem no_url_no_load:
  "falsy url \<Longrightarrow> list_all keeps_no_url evs \<Longrightarrow>
     Viewer3D_render url error = NoModelSelected
     \<and> s_log (run cvn evs (Viewer3D_mount url onLoaded heap)) = []
     \<and> rendered_url (run cvn evs (Viewer3D_mount url onLoaded heap)) = None
     \<and> (s_url s = url \<longrightarrow> s_log (run cvn evs s) = s_log s \<and> rendered_url (run cvn evs s) = None)"
proof (intro conjI impI)
  assume f: "falsy url" and k: "list_all keeps_no_url evs"
  show "Viewer3D_render url error = NoModelSelected"
    using f by (rule Viewer3D_render_falsy)
  let ?m = "Viewer3D_mount url onLoaded heap"
  have "falsy (s_url ?m)" using f by (simp add: mount_fields)
  from run_no_url [OF this k, of cvn]
  show "s_log (run cvn evs ?m) = []" and "rendered_url (run cvn evs ?m) = None"
    by (simp_all add: mount_fields rendered_url_falsy)
  assume "s_url s = url"
  with f have "falsy (s_url s)" by simp
  from run_no_url [OF this k, of cvn]
  show "s_log (run cvn evs s) = s_log s" and "rendered_url (run cvn evs s) = None"
    by (simp_all add: rendered_url_falsy)
qed

theorem no_url_no_load_witness:
  "falsy (Some [])
   \<and> list_all keeps_no_url
        [Render (Returns 0 False), FullscreenChange True, SetProps None (Some 7), Render Throws,
         Escapes, Flush]
   \<and> Viewer3D_render (Some []) True = NoModelSelected
   \<and> s_log (run vertexNormals
        [Render (Returns 0 False), FullscreenChange True, SetProps None (Some 7), Render Throws,
         Escapes, Flush]
        (Viewer3D_mount (Some []) (Some 7) unit_store)) = []"
proof -
  have f: "falsy (Some [])" by (simp add: falsy_def)
  have k: "list_all keeps_no_url
             [Render (Returns 0 False), FullscreenChange True, SetProps None (Some 7),
              Render Throws, Escapes, Flush]"
    by (simp add: falsy_def)
  from no_url_no_load [OF f k, of True vertexNormals "Some 7" unit_store] f k
  show ?thesis by blast
qed

section \<open>Properties of the effect across renders\<close>

lemma Model_commit_invoked:
  "Model_commit cvn ref onLoaded prev heap = (d, h, calls) \<Longrightarrow> heap ref \<noteq> None \<Longrightarrow>
   d = Some (ref, onLoaded)
   \<and> invoked calls = callbacks (if prev = Some (ref, onLoaded) then [] else [(ref, onLoaded)])
   \<and> length calls = length (invoked calls)
   \<and> (\<forall>r. heap r \<noteq> None \<longrightarrow> h r \<noteq> None)"
  by (cases onLoaded) (auto simp: Model_commit_def Model_effect_Some split: if_splits)

lemma invoked_append: "invoked (xs @ ys) = invoked xs @ invoked ys"
  by (induction xs rule: invoked.induct) simp_all

lemma callbacks_append: "callbacks (xs @ ys) = callbacks xs @ callbacks ys"
  by (induction xs rule: callbacks.induct) simp_all

lemma loaded_mono: "\<forall>r. heap r \<noteq> None \<longrightarrow> h r \<noteq> None \<Longrightarrow> loaded heap rs \<Longrightarrow> loaded h rs"
  by (induction heap rs rule: loaded.induct) simp_all

lemma Model_renders_invoked:
  "loaded heap rs \<Longrightarrow>
   invoked (Model_renders cvn rs prev heap) = callbacks (effect_runs rs prev)
   \<and> length (Model_renders cvn rs prev heap) = length (callbacks (effect_runs rs prev))"
proof (induction rs arbitrary: prev heap)
  case Nil
  then show ?case by simp
next
  case (Cons r rs)
  show ?case
  proof (cases r)
    case Suspended
    with Cons.prems have "loaded heap rs" by simp
    from Cons.IH [OF this, of None] show ?thesis using Suspended by simp
  next
    case (Completed ref onLoaded)
    obtain d h calls where c: "Model_commit cvn ref onLoaded prev heap = (d, h, calls)"
      by (cases "Model_commit cvn ref onLoaded prev heap") auto
    from Cons.prems Completed have l: "heap ref \<noteq> None" and ls: "loaded heap rs" by simp_all
    from Model_commit_invoked [OF c l]
    have d: "d = Some (ref, onLoaded)"
      and i: "invoked calls =
              callbacks (if prev = Some (ref, onLoaded) then [] else [(ref, onLoaded)])"
      and n: "length calls = length (invoked calls)"
      and h: "\<forall>r. heap r \<noteq> None \<longrightarrow> h r \<noteq> None"
      by simp_all
    from loaded_mono [OF h ls] have "loaded h rs" .
    from Cons.IH [OF this, of d]
    have ih: "invoked (Model_renders cvn rs d h) = callbacks (effect_runs rs d)"
      and ihn: "length (Model_renders cvn rs d h) = length (callbacks (effect_runs rs d))"
      by simp_all
    show ?thesis
      using c i n ih ihn d Completed by (simp add: invoked_append callbacks_append)
  qed
qed

lemma effect_runs_stable:
  "effect_runs (replicate n (Completed ref onLoaded)) (Some (ref, onLoaded)) = []"
  by (induction n) simp_all

lemma loaded_replicate: "heap ref \<noteq> None \<Longrightarrow> loaded heap (replicate n (Completed ref onLoaded))"
  by (induction n) simp_all

text \<open>
  C3, as the code has it. For renders of a mounted \<^verbatim>\<open>Model\<close> with loaded geometry, the
  callbacks invoked are, in order, those of the renders after which the effect runs: the
  first completed render, every later completed render whose geometry object or callback
  differs from the render before, and every completed render that follows a suspended
  one, each invoking the callback of that render when there is one. So with the same
  geometry and the same callback in every render and no suspended render in between the
  callback is invoked exactly once; without a callback nothing is invoked; and the same
  geometry with the same callback shown again after a suspended render is reported a
  second time.
\<close>

theorem onLoaded_per_effect_run:
  "(loaded heap rs \<longrightarrow>
      invoked (Model_renders cvn rs None heap) = callbacks (effect_runs rs None)
      \<and> length (Model_renders cvn rs None heap) = length (callbacks (effect_runs rs None)))
   \<and> (heap ref \<noteq> None \<longrightarrow>
        invoked (Model_renders cvn (replicate (Suc n) (Completed ref (Some f))) None heap) = [f]
        \<and> Model_renders cvn (replicate (Suc n) (Completed ref None)) None heap = []
        \<and> invoked (Model_renders cvn
             [Completed ref (Some f), Suspended, Completed ref (Some f)] None heap) = [f, f])"
proof (intro conjI impI)
  assume "loaded heap rs"
  from Model_renders_invoked [OF this, of cvn None]
  show "invoked (Model_renders cvn rs None heap) = callbacks (effect_runs rs None)"
    and "length (Model_renders cvn rs None heap) = length (callbacks (effect_runs rs None))"
    by simp_all
next
  assume l: "heap ref \<noteq> None"
  have a: "loaded heap (replicate (Suc n) (Completed ref (Some f)))"
    using l by (rule loaded_replicate [where heap = heap and ref = ref])
  from Model_renders_invoked [OF a, of cvn None]
  show "invoked (Model_renders cvn (replicate (Suc n) (Completed ref (Some f))) None heap) = [f]"
    by (simp add: effect_runs_stable)
  have b: "loaded heap (replicate (Suc n) (Completed ref None))"
    using l by (rule loaded_replicate [where heap = heap and ref = ref])
  from Model_renders_invoked [OF b, of cvn None]
  have "length (Model_renders cvn (replicate (Suc n) (Completed ref None)) None heap) = 0"
    by (simp add: effect_runs_stable)
  then show "Model_renders cvn (replicate (Suc n) (Completed ref None)) None heap = []"
    by simp
  have "loaded heap [Completed ref (Some f), Suspended, Completed ref (Some f)]"
    using l by simp
  from Model_renders_invoked [OF this, of cvn None]
  show "invoked (Model_renders cvn
          [Completed ref (Some f), Suspended, Completed ref (Some f)] None heap) = [f, f]"
    by simp
qed

theorem onLoaded_per_effect_run_witness:
  "loaded unit_store [Completed 0 (Some 1), Completed 0 (Some 1), Completed 0 (Some 2)]
   \<and> invoked (Model_renders vertexNormals
        [Completed 0 (Some 1), Completed 0 (Some 1), Completed 0 (Some 2)] None unit_store) = [1, 2]
   \<and> unit_store 0 \<noteq> None
   \<and> invoked (Model_renders vertexNormals (replicate (Suc 2) (Completed 0 (Some 1))) None
        unit_store) = [1]
   \<and> Model_renders vertexNormals (replicate (Suc 2) (Completed 0 None)) None unit_store = []
   \<and> invoked (Model_renders vertexNormals
        [Completed 0 (Some 1), Suspended, Completed 0 (Some 1)] None unit_store) = [1, 1]"
proof -
  have a: "loaded unit_store [Completed 0 (Some 1), Completed 0 (Some 1), Completed 0 (Some 2)]"
    by (simp add: unit_store_def)
  have b: "unit_store 0 \<noteq> None"
    by (simp add: unit_store_def)
  from onLoaded_per_effect_run
         [where heap = unit_store and cvn = vertexNormals and ref = 0 and n = 2 and f = 1
            and rs = "[Completed 0 (Some 1), Completed 0 (Some 1), Completed 0 (Some 2)]"] a b
  show ?thesis by simp
qed

text \<open>
  The claim as stated fails: one loaded geometry rendered twice, the second time with
  another function as \<^verbatim>\<open>onLoaded\<close>, reports its size twice; rendered without an
  \<^verbatim>\<open>onLoaded\<close> prop it reports nothing; and rendered with the same function before and
  after a suspended render it reports its size twice.
\<close>

theorem onLoaded_exactly_once_counterexample:
  "Model_renders vertexNormals [Completed 0 (Some 1), Completed 0 (Some 2)] None unit_store =
     [OnLoaded 1 (Vec3 1 1 0), OnLoaded 2 (Vec3 1 1 0)]
   \<and> Model_renders vertexNormals [Completed 0 None] None unit_store = []
   \<and> Model_renders vertexNormals [Completed 0 (Some 1), Suspended, Completed 0 (Some 1)] None
        unit_store = [OnLoaded 1 (Vec3 1 1 0), OnLoaded 1 (Vec3 1 1 0)]"
  by (simp add: Model_commit_def unit_store_def unit_triangle_def geometry_eval)

section \<open>Properties of the upload\<close>

text \<open>
  A batch of an STL file and a text file with a failing generator: one warning, both
  files uploaded without thumbnail, both models listed.
\<close>

lemma handleUpload_two_files:
  "effects (handleUpload failing_gen accepting_up one_folder_app two_files) =
     [GenerateThumbnail \<lparr>file_name = ''Part.STL'', file_data = [1, 2]\<rparr>, ConsoleWarn,
      UploadModel \<lparr>file_name = ''Part.STL'', file_data = [1, 2]\<rparr> ''f1'' None,
      UploadModel \<lparr>file_name = ''notes.txt'', file_data = []\<rparr> ''f1'' None]
   \<and> models (handleUpload failing_gen accepting_up one_folder_app two_files) =
       [''notes.txt'', ''Part.STL'']
   \<and> uploadQueue (handleUpload failing_gen accepting_up one_folder_app two_files) = 0"
  by (simp add: handleUpload_def two_files_def one_folder_app_def targetFolderId_def thumbnail_step_def
     toLowerCase_def lower_char_def endsWith_def failing_gen_def accepting_up_def char_of_def
     bit_Suc bit_0)


lemma uploads_append: "uploads (xs @ ys) = uploads xs @ uploads ys"
  by (induction xs rule: uploads.induct) simp_all

lemma uploads_thumbnail_step: "uploads (snd (thumbnail_step gen f)) = []"
  by (simp add: thumbnail_step_def split: sum.split)

lemma thumbnail_step_failure: "gen f = Inl e \<Longrightarrow> fst (thumbnail_step gen f) = None"
  by (simp add: thumbnail_step_def)

lemma upload_loop_uploads:
  "uploads (effects (upload_loop gen up target st fs)) =
   uploads (effects st) @ map (\<lambda>f. (f, target, fst (thumbnail_step gen f))) fs"
proof (induction fs arbitrary: st)
  case Nil
  then show ?case by simp
next
  case (Cons f fs)
  obtain thumbnail eff where t: "thumbnail_step gen f = (thumbnail, eff)"
    by (cases "thumbnail_step gen f")
  from uploads_thumbnail_step [of gen f] t have e: "uploads eff = []" by simp
  show ?case
    by (cases "up f target thumbnail") (simp_all add: t Cons.IH Let_def uploads_append e)
qed

lemma upload_loop_models_mono:
  "m \<in> set (models st) \<Longrightarrow> m \<in> set (models (upload_loop gen up target st fs))"
proof (induction fs arbitrary: st)
  case Nil
  then show ?case by simp
next
  case (Cons f fs)
  obtain thumbnail eff where t: "thumbnail_step gen f = (thumbnail, eff)"
    by (cases "thumbnail_step gen f")
  show ?case
    by (cases "up f target thumbnail") (simp_all add: t Let_def Cons.prems Cons.IH)
qed

lemma upload_loop_models:
  "f \<in> set fs \<Longrightarrow> up f target (fst (thumbnail_step gen f)) = Inr m \<Longrightarrow>
   m \<in> set (models (upload_loop gen up target st fs))"
proof (induction fs arbitrary: st)
  case Nil
  then show ?case by simp
next
  case (Cons g fs)
  obtain thumbnail eff where t: "thumbnail_step gen g = (thumbnail, eff)"
    by (cases "thumbnail_step gen g")
  show ?case
  proof (cases "f = g")
    case True
    with Cons.prems(2) t have u: "up g target thumbnail = Inr m" by simp
    show ?thesis
      by (simp add: t u Let_def upload_loop_models_mono)
  next
    case False
    with Cons.prems(1) have "f \<in> set fs" by simp
    from Cons.IH [OF this Cons.prems(2)] show ?thesis
      by (cases "up g target thumbnail") (simp_all add: t Let_def)
  qed
qed

lemma upload_loop_uploadQueue:
  "uploadQueue (upload_loop gen up target st fs) = uploadQueue st - int (length fs)"
proof (induction fs arbitrary: st)
  case Nil
  then show ?case by simp
next
  case (Cons f fs)
  obtain thumbnail eff where t: "thumbnail_step gen f = (thumbnail, eff)"
    by (cases "thumbnail_step gen f")
  show ?case
    by (cases "up f target thumbnail") (simp_all add: t Let_def Cons.IH)
qed

text \<open>
  C8. When the thumbnail generator fails for a file of the batch, the upload API is still
  called once for every file of the batch, in order; the call for that file carries no
  thumbnail; when that call succeeds the new model is in the list of models; and the
  queue counter is back at its value from before the batch.
\<close>

theorem thumbnail_failure_does_not_block_upload:
  "i < length files \<Longrightarrow> gen (files ! i) = Inl e \<Longrightarrow>
     map fst (uploads (effects (handleUpload gen up st files))) =
       map fst (uploads (effects st)) @ files
     \<and> uploads (effects (handleUpload gen up st files)) ! (length (uploads (effects st)) + i) =
         (files ! i, targetFolderId st, None)
     \<and> (\<forall>m. up (files ! i) (targetFolderId st) None = Inr m \<longrightarrow>
            m \<in> set (models (handleUpload gen up st files)))
     \<and> uploadQueue (handleUpload gen up st files) = uploadQueue st"
proof (intro conjI allI impI)
  assume i: "i < length files" and g: "gen (files ! i) = Inl e"
  let ?st = "st\<lparr>uploadQueue := uploadQueue st + int (length files)\<rparr>"
  let ?t = "targetFolderId st"
  have u: "uploads (effects (handleUpload gen up st files)) =
           uploads (effects st) @ map (\<lambda>f. (f, ?t, fst (thumbnail_step gen f))) files"
    using upload_loop_uploads [of gen up ?t ?st files] by (simp add: handleUpload_def)
  show "map fst (uploads (effects (handleUpload gen up st files))) =
        map fst (uploads (effects st)) @ files"
    by (simp add: u comp_def)
  from g have n: "fst (thumbnail_step gen (files ! i)) = None"
    by (rule thumbnail_step_failure [where gen = gen and f = "files ! i" and e = e])
  show "uploads (effects (handleUpload gen up st files)) ! (length (uploads (effects st)) + i) =
        (files ! i, ?t, None)"
    using i n by (simp add: u nth_append)
  show "uploadQueue (handleUpload gen up st files) = uploadQueue st"
    using upload_loop_uploadQueue [of gen up ?t ?st files] by (simp add: handleUpload_def)
  fix m
  assume "up (files ! i) ?t None = Inr m"
  with n have "up (files ! i) ?t (fst (thumbnail_step gen (files ! i))) = Inr m" by simp
  moreover from i have "files ! i \<in> set files" by simp
  ultimately show "m \<in> set (models (handleUpload gen up st files))"
    using upload_loop_models [of "files ! i" files up ?t gen m ?st] by (simp add: handleUpload_def)
qed

theorem thumbnail_failure_does_not_block_upload_witness:
  "(0::nat) < length two_files
   \<and> failing_gen (two_files ! 0) = Inl ''no rendering context''
   \<and> map fst (uploads (effects (handleUpload failing_gen accepting_up one_folder_app two_files))) =
       two_files
   \<and> uploads (effects (handleUpload failing_gen accepting_up one_folder_app two_files)) ! 0 =
       (\<lparr>file_name = ''Part.STL'', file_data = [1, 2]\<rparr>, ''f1'', None)
   \<and> ''Part.STL'' \<in> set (models (handleUpload failing_gen accepting_up one_folder_app two_files))
   \<and> uploadQueue (handleUpload failing_gen accepting_up one_folder_app two_files) = 0"
proof -
  have i: "(0::nat) < length two_files"
    by (simp add: two_files_def)
  have g: "failing_gen (two_files ! 0) = Inl ''no rendering context''"
    by (simp add: failing_gen_def)
  have a: "accepting_up (two_files ! 0) (targetFolderId one_folder_app) None = Inr ''Part.STL''"
    by (simp add: accepting_up_def two_files_def)
  have t: "targetFolderId one_folder_app = ''f1''"
    by (simp add: targetFolderId_def one_folder_app_def)
  have p: "two_files ! 0 = \<lparr>file_name = ''Part.STL'', file_data = [1, 2]\<rparr>"
    by (simp add: two_files_def)
  have z: "effects one_folder_app = []" "uploadQueue one_folder_app = 0"
    by (simp_all add: one_folder_app_def)
  from thumbnail_failure_does_not_block_upload
    [where i = 0 and files = two_files and gen = failing_gen and e = "''no rendering context''"
       and up = accepting_up and st = one_folder_app] a i g
  show ?thesis by (simp add: t p z)
qed

end
